theory Spec2Isabelle
  imports Complex_Main
begin

section \<open>JavaScript strings\<close>

text \<open>
  A JavaScript string is a sequence of UTF-16 code units, and \<open>.length\<close> counts code
  units.  The admission documents and the prompts are Arabic, so every string of the
  program is modelled as the list of its code units (natural numbers below 65536).  The
  literals of the source are written out as code-unit lists.
\<close>

type_synonym jsstring = "nat list"


text \<open>\<open>s.includes(p)\<close>: \<open>p\<close> occurs at some index of \<open>s\<close>.\<close>

fun js_includes :: "jsstring \<Rightarrow> jsstring \<Rightarrow> bool" where
  "js_includes [] p = (p = [])"
| "js_includes (c # cs) p = (take (length p) (c # cs) = p \<or> js_includes cs p)"

section \<open>Retrieval: merging strategy results (chat route)\<close>

text \<open>
  \<open>interface MatchDocumentsResult { id; content; metadata; similarity }\<close>.  The field
  \<open>id\<close> is named \<open>doc_id\<close> here.  \<open>metadata\<close> is a \<open>Record<string, unknown>\<close> that the
  route reads as \<open>Record<string, string>\<close>: a map from (ASCII) keys to strings.
  \<open>similarity\<close> is a JavaScript number; it is modelled as a real, which is exact for
  the order comparisons the route makes on finite scores.
\<close>

record MatchDocumentsResult =
  doc_id :: int
  content :: jsstring
  metadata :: "string \<rightharpoonup> jsstring"
  similarity :: real

text \<open>
  The state the closure \<open>addDocs\<close> mutates: the array \<open>relevantDocs\<close> and the set
  \<open>existingIds\<close>.
  \<^verbatim>\<open>
  const addDocs = (docs) => {
    for (const doc of docs) {
      if (!existingIds.has(doc.id)) { relevantDocs.push(doc); existingIds.add(doc.id); }
    }
  };
  \<close>
\<close>

type_synonym merge_state = "MatchDocumentsResult list \<times> int set"

fun addDocs :: "merge_state \<Rightarrow> MatchDocumentsResult list \<Rightarrow> merge_state" where
  "addDocs (relevantDocs, existingIds) [] = (relevantDocs, existingIds)"
| "addDocs (relevantDocs, existingIds) (doc # docs) =
     (if doc_id doc \<notin> existingIds
      then addDocs (relevantDocs @ [doc], insert (doc_id doc) existingIds) docs
      else addDocs (relevantDocs, existingIds) docs)"

text \<open>
  A request starts from \<open>relevantDocs = []\<close> and \<open>existingIds = new Set()\<close> and calls
  \<open>addDocs\<close> once per strategy result, in order.
\<close>

definition merge_results :: "MatchDocumentsResult list list \<Rightarrow> merge_state" where
  "merge_results results = foldl addDocs ([], {}) results"

text \<open>The merge in the words of the specification: keep the first match of every id.\<close>

fun first_per_id :: "int set \<Rightarrow> MatchDocumentsResult list \<Rightarrow> MatchDocumentsResult list" where
  "first_per_id seen [] = []"
| "first_per_id seen (d # ds) =
     (if doc_id d \<in> seen then first_per_id seen ds
      else d # first_per_id (insert (doc_id d) seen) ds)"


section \<open>Retrieval: query analysis object and re-ranking comparators\<close>

text \<open>
  The object \<open>analyzeQuery\<close> returns.  A field that is missing or \<open>null\<close> is \<open>None\<close>;
  the field \<open>keywords\<close> is named \<open>query_keywords\<close> here.
\<close>

record QueryAnalysis =
  program :: "jsstring option"
  university :: "jsstring option"
  code :: "jsstring option"
  search_query :: "jsstring option"
  search_queries :: "jsstring list option"
  is_general_question :: "bool option"
  query_keywords :: "jsstring list option"

text \<open>JavaScript truthiness of an optional string: defined and not the empty string.\<close>

definition truthy :: "jsstring option \<Rightarrow> bool" where
  "truthy v = (case v of None \<Rightarrow> False | Some s \<Rightarrow> s \<noteq> [])"

text \<open>
  The comparator of \<open>relevantDocs.sort\<close> in \<open>app/api/chat/route.ts\<close> (POST and GET).  A
  negative result puts \<open>a\<close> before \<open>b\<close>.
  \<^verbatim>\<open>
  (a, b) => {
    if (analysis.program) {
      const aMatchesProg = a.content.includes(analysis.program);
      const bMatchesProg = b.content.includes(analysis.program);
      if (aMatchesProg && !bMatchesProg) return -1;
      if (!aMatchesProg && bMatchesProg) return 1;
    }
    return b.similarity - a.similarity;
  }
  \<close>
\<close>

definition rerank_cmp :: "jsstring option \<Rightarrow> MatchDocumentsResult \<Rightarrow> MatchDocumentsResult \<Rightarrow> real" where
  "rerank_cmp prog a b =
     (if truthy prog
      then (let aMatchesProg = js_includes (content a) (the prog);
                bMatchesProg = js_includes (content b) (the prog)
            in if aMatchesProg \<and> \<not> bMatchesProg then - 1
               else if \<not> aMatchesProg \<and> bMatchesProg then 1
               else similarity b - similarity a)
      else similarity b - similarity a)"

text \<open>
  The comparator of the multi-strategy variant of the route (\<open>unnamed/part_002\<close>): the
  same, after \<open>toLowerCase()\<close> on the content and on the program name.  \<open>toLowerCase\<close> is
  the runtime's Unicode case conversion and is a parameter.
\<close>

definition rerank_cmp_lower ::
  "(jsstring \<Rightarrow> jsstring) \<Rightarrow> jsstring option \<Rightarrow> MatchDocumentsResult \<Rightarrow> MatchDocumentsResult \<Rightarrow> real" where
  "rerank_cmp_lower toLowerCase prog a b =
     (if truthy prog
      then (let aMatchesProg = js_includes (toLowerCase (content a)) (toLowerCase (the prog));
                bMatchesProg = js_includes (toLowerCase (content b)) (toLowerCase (the prog))
            in if aMatchesProg \<and> \<not> bMatchesProg then - 1
               else if \<not> aMatchesProg \<and> bMatchesProg then 1
               else similarity b - similarity a)
      else similarity b - similarity a)"

text \<open>
  \<open>toLowerCase\<close> on strings of ASCII and Arabic code units: the letters A to Z move to
  a to z, every other code unit stays (Arabic has no case).  Used to evaluate the
  comparator on concrete inputs.
\<close>

definition ascii_lower :: "jsstring \<Rightarrow> jsstring" where
  "ascii_lower s = map (\<lambda>c. if 65 \<le> c \<and> c \<le> 90 then c + 32 else c) s"



section \<open>Context formatter\<close>


text \<open>\<open>parts.join(sep)\<close>.\<close>

fun js_join :: "jsstring \<Rightarrow> jsstring list \<Rightarrow> jsstring" where
  "js_join sep [] = []"
| "js_join sep [x] = x"
| "js_join sep (x # y # ys) = x @ sep @ js_join sep (y # ys)"

text \<open>\<open>v || fallback\<close> on an optional string.\<close>

definition str_or :: "jsstring option \<Rightarrow> jsstring \<Rightarrow> jsstring" where
  "str_or v fallback = (if truthy v then the v else fallback)"


















section \<open>Collaborators: errors, embedding provider, document store\<close>

text \<open>
  A call to a collaborator either returns or raises.  The kinds of failure the model
  tells apart: the embedding provider, the store, the language model, \<open>JSON.parse\<close>.
\<close>

datatype error = EmbeddingError | StoreError | ModelError | SyntaxError











section \<open>Retrieval pipelines of the chat routes\<close>


text \<open>\<open>const optimizedQuery = analysis.search_query || message\<close>.\<close>

definition optimizedQuery :: "QueryAnalysis \<Rightarrow> jsstring \<Rightarrow> jsstring" where
  "optimizedQuery analysis message = str_or (search_query analysis) message"







section \<open>Query analyzer\<close>

text \<open>
  White space and line terminators of ECMAScript (\<open>String.prototype.trim\<close>, and \<open>\s\<close> in
  a regular expression), as code units.
\<close>

definition js_space :: "nat \<Rightarrow> bool" where
  "js_space c = (c \<in> {9, 10, 11, 12, 13, 32, 160, 5760, 8232, 8233, 8239, 8287, 12288, 65279}
                 \<or> (8192 \<le> c \<and> c \<le> 8202))"

definition js_trim :: "jsstring \<Rightarrow> jsstring" where
  "js_trim s = rev (dropWhile js_space (rev (dropWhile js_space s)))"

text \<open>
  \<open>content.replace(/```json|```/g, '')\<close>: every fence is removed, scanning from the
  left; at a position the longer alternative is tried first.  96 is the backtick.
\<close>

fun strip_fences :: "jsstring \<Rightarrow> jsstring" where
  "strip_fences [] = []"
| "strip_fences (c # cs) =
     (if take 7 (c # cs) = [96, 96, 96, 106, 115, 111, 110] then strip_fences (drop 6 cs)
      else if take 3 (c # cs) = [96, 96, 96] then strip_fences (drop 2 cs)
      else c # strip_fences cs)"

text \<open>\<open>s.split(sep)\<close> for a separator of one code unit (\<open>' '\<close>, \<open>'\n'\<close>).\<close>

fun split_on :: "nat \<Rightarrow> jsstring \<Rightarrow> jsstring list" where
  "split_on sep [] = [[]]"
| "split_on sep (c # cs) =
     (if c = sep then [] # split_on sep cs
      else (case split_on sep cs of [] \<Rightarrow> [[c]] | w # ws \<Rightarrow> (c # w) # ws))"

definition empty_analysis :: QueryAnalysis where
  "empty_analysis =
     \<lparr>program = None, university = None, code = None, search_query = None,
      search_queries = None, is_general_question = None, query_keywords = None\<rparr>"

text \<open>
  The body of the \<open>try\<close> of \<open>analyzeQuery\<close> (both variants):
  \<^verbatim>\<open>
  const response = await analysisModel.invoke(prompt);
  const content = response.content as string;
  const jsonStr = content.replace(/```json|```/g, '').trim();
  return JSON.parse(jsonStr);
  \<close>
  The outcome of the model call is an input of the model: \<open>Inl\<close> when the call
  rejects, \<open>Inr reply_text\<close> (the \<open>content\<close> of the response) otherwise.  \<open>JSON.parse\<close> is a parameter: \<open>None\<close> when it
  throws a \<open>SyntaxError\<close>, otherwise the parsed object read as a \<open>QueryAnalysis\<close>.
\<close>

definition analyze_try ::
  "error + jsstring \<Rightarrow> (jsstring \<Rightarrow> QueryAnalysis option) \<Rightarrow> error + QueryAnalysis" where
  "analyze_try response JSON_parse =
     (case response of
        Inl err \<Rightarrow> Inl err
      | Inr reply_text \<Rightarrow>
          (case JSON_parse (js_trim (strip_fences reply_text)) of
             None \<Rightarrow> Inl SyntaxError
           | Some analysis \<Rightarrow> Inr analysis))"

text \<open>
  \<open>analyzeQuery\<close> of \<open>app/api/chat/route.ts\<close>:
  \<open>catch (e) { console.error(...); return { search_query: query }; }\<close>
\<close>

definition analyzeQuery ::
  "error + jsstring \<Rightarrow> (jsstring \<Rightarrow> QueryAnalysis option) \<Rightarrow> jsstring \<Rightarrow> QueryAnalysis" where
  "analyzeQuery response JSON_parse query =
     (case analyze_try response JSON_parse of
        Inr analysis \<Rightarrow> analysis
      | Inl e \<Rightarrow> empty_analysis\<lparr>search_query := Some query\<rparr>)"

text \<open>
  \<open>analyzeQuery\<close> of the multi-strategy variant:
  \<^verbatim>\<open>
  catch (e) {
    console.error(...);
    return { search_queries: [query], is_general_question: true,
             keywords: query.split(' ').filter(w => w.length > 2) };
  }
  \<close>
\<close>

definition analyzeQuery_multi ::
  "error + jsstring \<Rightarrow> (jsstring \<Rightarrow> QueryAnalysis option) \<Rightarrow> jsstring \<Rightarrow> QueryAnalysis" where
  "analyzeQuery_multi response JSON_parse query =
     (case analyze_try response JSON_parse of
        Inr analysis \<Rightarrow> analysis
      | Inl e \<Rightarrow>
          empty_analysis\<lparr>search_queries := Some [query], is_general_question := Some True,
            query_keywords := Some (filter (\<lambda>w. length w > 2) (split_on 32 query))\<rparr>)"

text \<open>
  The first search string each route derives from the analysis:
  \<open>analysis.search_query || message\<close>, and the head of
  \<open>(analysis.search_queries || [message]).slice(0, 3)\<close> when there is one.
\<close>

definition first_search_multi :: "QueryAnalysis \<Rightarrow> jsstring \<Rightarrow> jsstring option" where
  "first_search_multi analysis message =
     (case take 3 (case search_queries analysis of None \<Rightarrow> [message] | Some qs \<Rightarrow> qs) of
        [] \<Rightarrow> None
      | q # qs \<Rightarrow> Some q)"

section \<open>Splitting long blocks (PDF ingestion)\<close>










section \<open>Regular expressions\<close>

text \<open>
  The regular expressions of the ingestion scripts use literals, character classes,
  sequence, alternation, greedy and lazy repetition, positive lookahead, \<open>^\<close> and
  \<open>$\<close> (without the \<open>m\<close> flag: start and end of the input), and at most one capturing
  group, which stands at the top level of its pattern.  They are matched as ECMAScript
  matches them, by backtracking: \<open>rx_steps r st\<close> lists the states in which \<open>r\<close> can
  end when started in \<open>st\<close>, in the order backtracking tries them, so the head of the
  list is the match that is found.  A state is the index reached and the input that
  remains.
\<close>

datatype cls = Digit | Space | Upper | AnyUnit | Dot | Unit nat | NoneOf "nat list" | Either cls cls

fun in_cls :: "cls \<Rightarrow> nat \<Rightarrow> bool" where
  "in_cls Digit c = (48 \<le> c \<and> c \<le> 57)"
| "in_cls Space c = js_space c"
| "in_cls Upper c = (65 \<le> c \<and> c \<le> 90)"
| "in_cls AnyUnit c = True"
| "in_cls Dot c = (c \<notin> {10, 13, 8232, 8233})"
| "in_cls (Unit u) c = (c = u)"
| "in_cls (NoneOf us) c = (c \<notin> set us)"
| "in_cls (Either a b) c = (in_cls a c \<or> in_cls b c)"

datatype rx = Lit jsstring | Cls cls | Seq rx rx | Alt rx rx | Star rx | Lazy rx
  | Ahead rx | Bol | Eol | Eps

type_synonym mstate = "nat \<times> jsstring"

text \<open>
  \<open>r*\<close> and \<open>r*?\<close>: an iteration that consumes nothing is not taken (ECMAScript's
  empty check).  Every iteration consumes a code unit, so the input that remains
  bounds the number of iterations; it is the recursion argument.
\<close>

fun star_iter :: "jsstring \<Rightarrow> (mstate \<Rightarrow> mstate list) \<Rightarrow> mstate \<Rightarrow> mstate list" where
  "star_iter [] step st = [st]"
| "star_iter (c # fuel) step st =
     concat (map (star_iter fuel step) (filter (\<lambda>st'. fst st < fst st') (step st))) @ [st]"

fun lazy_iter :: "jsstring \<Rightarrow> (mstate \<Rightarrow> mstate list) \<Rightarrow> mstate \<Rightarrow> mstate list" where
  "lazy_iter [] step st = [st]"
| "lazy_iter (c # fuel) step st =
     st # concat (map (lazy_iter fuel step) (filter (\<lambda>st'. fst st < fst st') (step st)))"

primrec rx_steps :: "rx \<Rightarrow> mstate \<Rightarrow> mstate list" where
  "rx_steps (Lit l) st =
     (if take (length l) (snd st) = l then [(fst st + length l, drop (length l) (snd st))] else [])"
| "rx_steps (Cls k) st =
     (case snd st of [] \<Rightarrow> [] | c # cs \<Rightarrow> if in_cls k c then [(fst st + 1, cs)] else [])"
| "rx_steps (Seq a b) st = concat (map (rx_steps b) (rx_steps a st))"
| "rx_steps (Alt a b) st = rx_steps a st @ rx_steps b st"
| "rx_steps (Star a) st = star_iter (snd st) (rx_steps a) st"
| "rx_steps (Lazy a) st = lazy_iter (snd st) (rx_steps a) st"
| "rx_steps (Ahead a) st = (case rx_steps a st of [] \<Rightarrow> [] | st' # sts \<Rightarrow> [st])"
| "rx_steps Bol st = (if fst st = 0 then [st] else [])"
| "rx_steps Eol st = (if snd st = [] then [st] else [])"
| "rx_steps Eps st = [st]"

text \<open>\<open>r+\<close>, \<open>r?\<close>, \<open>r{n}\<close> and \<open>r{n,}\<close>.\<close>

definition Plus :: "rx \<Rightarrow> rx" where
  "Plus r = Seq r (Star r)"

definition Opt :: "rx \<Rightarrow> rx" where
  "Opt r = Alt r Eps"

fun Rep :: "nat \<Rightarrow> rx \<Rightarrow> rx" where
  "Rep n r = (if n = 0 then Eps else Seq r (Rep (n - 1) r))"

definition AtLeast :: "nat \<Rightarrow> rx \<Rightarrow> rx" where
  "AtLeast n r = Seq (Rep n r) (Star r)"

text \<open>The end of the match of \<open>r\<close> that starts at the state, if there is one.\<close>

definition rx_exec :: "rx \<Rightarrow> mstate \<Rightarrow> nat option" where
  "rx_exec r st = (case rx_steps r st of [] \<Rightarrow> None | st' # sts \<Rightarrow> Some (fst st'))"

text \<open>The leftmost match: start and end.  The second argument is the index of the input.\<close>

fun rx_search :: "rx \<Rightarrow> nat \<Rightarrow> jsstring \<Rightarrow> (nat \<times> nat) option" where
  "rx_search r i [] = (case rx_exec r (i, []) of None \<Rightarrow> None | Some e \<Rightarrow> Some (i, e))"
| "rx_search r i (c # cs) =
     (case rx_exec r (i, c # cs) of None \<Rightarrow> rx_search r (i + 1) cs | Some e \<Rightarrow> Some (i, e))"

text \<open>\<open>r.test(s)\<close>, and \<open>s.replace(r, '')\<close> for a regular expression without the \<open>g\<close> flag.\<close>

definition rx_test :: "rx \<Rightarrow> jsstring \<Rightarrow> bool" where
  "rx_test r s = (rx_search r 0 s \<noteq> None)"

definition rx_remove_first :: "rx \<Rightarrow> jsstring \<Rightarrow> jsstring" where
  "rx_remove_first r s = (case rx_search r 0 s of None \<Rightarrow> s | Some (i, e) \<Rightarrow> take i s @ drop e s)"

text \<open>
  A pattern with its one capturing group: what stands before the group, the group,
  what stands after it.  \<open>s.match(pattern)\<close> without the \<open>g\<close> flag is \<open>null\<close> or the
  array of the whole match and the text of the group.
\<close>

datatype rx_group = Cap rx rx rx

record js_match =
  m_index :: nat
  m_whole :: jsstring
  m_group :: jsstring

fun capture_at :: "rx_group \<Rightarrow> mstate \<Rightarrow> (nat \<times> jsstring) option" where
  "capture_at (Cap pre body post) st =
     (case concat (map (\<lambda>st1. concat (map (\<lambda>st2. map (\<lambda>st3. (fst st3, take (fst st2 - fst st1) (snd st1)))
                                                     (rx_steps post st2))
                                           (rx_steps body st1)))
                       (rx_steps pre st)) of
        [] \<Rightarrow> None | m # ms \<Rightarrow> Some m)"

fun capture_search :: "rx_group \<Rightarrow> nat \<Rightarrow> jsstring \<Rightarrow> js_match option" where
  "capture_search p i [] =
     (case capture_at p (i, []) of None \<Rightarrow> None
      | Some (e, g) \<Rightarrow> Some \<lparr>m_index = i, m_whole = [], m_group = g\<rparr>)"
| "capture_search p i (c # cs) =
     (case capture_at p (i, c # cs) of
        None \<Rightarrow> capture_search p (i + 1) cs
      | Some (e, g) \<Rightarrow> Some \<lparr>m_index = i, m_whole = take (e - i) (c # cs), m_group = g\<rparr>)"

definition str_match :: "rx_group \<Rightarrow> jsstring \<Rightarrow> js_match option" where
  "str_match p s = capture_search p 0 s"

text \<open>
  \<open>s.match(r)\<close> with the \<open>g\<close> flag: the texts of all matches from left to right, each
  search starting where the last match ended (one further after an empty match).
  The arguments are the index, the number of code units still inside the last match,
  and the input from the index on.
\<close>

fun match_all_scan :: "rx \<Rightarrow> nat \<Rightarrow> nat \<Rightarrow> jsstring \<Rightarrow> jsstring list" where
  "match_all_scan r q skip [] =
     (if skip = 0 \<and> rx_exec r (q, []) \<noteq> None then [[]] else [])"
| "match_all_scan r q skip (c # cs) =
     (if skip > 0 then match_all_scan r (q + 1) (skip - 1) cs
      else (case rx_exec r (q, c # cs) of
              None \<Rightarrow> match_all_scan r (q + 1) 0 cs
            | Some e \<Rightarrow> take (e - q) (c # cs) # match_all_scan r (q + 1) (e - q - 1) cs))"

definition str_match_all :: "rx \<Rightarrow> jsstring \<Rightarrow> jsstring list option" where
  "str_match_all r s = (case match_all_scan r 0 0 s of [] \<Rightarrow> None | m # ms \<Rightarrow> Some (m # ms))"

text \<open>
  \<open>s.split(r)\<close> for a regular expression without capturing groups (ECMAScript's
  \<open>RegExp.prototype[Symbol.split]\<close>): \<open>p\<close> is the start of the current piece, \<open>q\<close> the
  index tried, \<open>piece\<close> the code units from \<open>p\<close> to \<open>q\<close>.  A match at \<open>q\<close> that ends at
  \<open>p\<close> is skipped; any other match closes the piece, and the next piece starts where
  the match ended.
\<close>

fun split_scan :: "rx \<Rightarrow> nat \<Rightarrow> nat \<Rightarrow> nat \<Rightarrow> jsstring \<Rightarrow> jsstring \<Rightarrow> jsstring list" where
  "split_scan r p q skip piece [] = [piece]"
| "split_scan r p q skip piece (c # cs) =
     (if skip > 0 then split_scan r p (q + 1) (skip - 1) [] cs
      else (case rx_exec r (q, c # cs) of
              None \<Rightarrow> split_scan r p (q + 1) 0 (piece @ [c]) cs
            | Some e \<Rightarrow>
                if e = p then split_scan r p (q + 1) 0 (piece @ [c]) cs
                else if e = q then piece # split_scan r q (q + 1) 0 [c] cs
                else piece # split_scan r e (q + 1) (e - q - 1) [] cs))"

definition rx_split :: "rx \<Rightarrow> jsstring \<Rightarrow> jsstring list" where
  "rx_split r s =
     (if s = [] then (if rx_exec r (0, []) \<noteq> None then [] else [[]])
      else split_scan r 0 0 0 [] s)"

text \<open>\<open>s.indexOf(p)\<close>: the first index at which \<open>p\<close> occurs, or -1.\<close>

fun index_from :: "jsstring \<Rightarrow> nat \<Rightarrow> jsstring \<Rightarrow> int" where
  "index_from p i [] = (if p = [] then int i else - 1)"
| "index_from p i (c # cs) =
     (if take (length p) (c # cs) = p then int i else index_from p (i + 1) cs)"

definition js_indexOf :: "jsstring \<Rightarrow> jsstring \<Rightarrow> int" where
  "js_indexOf s p = index_from p 0 s"

section \<open>Metadata extractor (text ingestion script)\<close>

text \<open>The Arabic labels of the admission document that the patterns look for.\<close>

definition NAME_LABEL :: jsstring where
  \<comment> \<open>the label \<open>program name\<close>\<close>
  "NAME_LABEL =
     [1575, 1587, 1605, 32, 1575, 1604, 1576, 1585, 1606, 1575, 1605, 1580]"

definition PROGRAM_WORD :: jsstring where
  \<comment> \<open>the word \<open>the program\<close>\<close>
  "PROGRAM_WORD =
     [1575, 1604, 1576, 1585, 1606, 1575, 1605, 1580]"

definition CODE_LABEL :: jsstring where
  \<comment> \<open>the label \<open>program code\<close>\<close>
  "CODE_LABEL =
     [1585, 1605, 1586, 32, 1575, 1604, 1576, 1585, 1606, 1575, 1605, 1580]"

definition CODE_WORD :: jsstring where
  \<comment> \<open>the word \<open>the code\<close>\<close>
  "CODE_WORD =
     [1575, 1604, 1585, 1605, 1586]"

definition MIN_GRADE_LABEL :: jsstring where
  \<comment> \<open>the label \<open>minimum\<close> (of the minimum grade)\<close>
  "MIN_GRADE_LABEL =
     [1575, 1604, 1581, 1583, 32, 1575, 1604, 1571, 1583, 1606, 1609]"

definition INSTITUTION_LABEL :: jsstring where
  \<comment> \<open>the label \<open>educational institution\<close>\<close>
  "INSTITUTION_LABEL =
     [1575, 1604, 1605, 1572, 1587, 1587, 1577, 32, 1575, 1604, 1578, 1593, 1604, 1610,
      1605, 1610, 1577]"

definition INSTITUTION_LABEL_STRETCHED :: jsstring where
  \<comment> \<open>the same label written with tatweel (1600) stretches\<close>
  "INSTITUTION_LABEL_STRETCHED =
     [1575, 1604, 1605, 1572, 1587, 1587, 1600, 1600, 1600, 1600, 1577, 32, 1575, 1604,
      1578, 1593, 1604, 1610, 1605, 1610, 1600, 1600, 1600, 1577]"

definition UNIVERSITY_WORD :: jsstring where
  \<comment> \<open>the word \<open>university\<close>\<close>
  "UNIVERSITY_WORD =
     [1580, 1575, 1605, 1593, 1577]"

definition COLLEGE_WORD :: jsstring where
  \<comment> \<open>the word \<open>college\<close>\<close>
  "COLLEGE_WORD =
     [1603, 1604, 1610, 1577]"

definition ORG_NOTES_LABEL :: jsstring where
  \<comment> \<open>the preamble marker \<open>important organizational note\<close>\<close>
  "ORG_NOTES_LABEL =
     [1605, 1604, 1575, 1581, 1592, 1577, 32, 1578, 1606, 1592, 1610, 1605, 1610, 1577,
      32, 1605, 1607, 1605, 1577]"

definition ORG_NOTES_SECTION :: jsstring where
  \<comment> \<open>the section name \<open>organizational notes\<close>\<close>
  "ORG_NOTES_SECTION =
     [1605, 1604, 1575, 1581, 1592, 1575, 1578, 32, 1578, 1606, 1592, 1610, 1605, 1610,
      1577]"

definition SECTION_WORD :: jsstring where
  \<comment> \<open>the word \<open>section\<close>\<close>
  "SECTION_WORD =
     [1602, 1587, 1605]"

definition NAME_WORD :: jsstring where
  \<comment> \<open>the word \<open>name\<close>\<close>
  "NAME_WORD =
     [1575, 1587, 1605]"

text \<open>\<open>[:\s]\<close>, and the prefixes \<open>^\d+\.\s*\<close> and \<open>^\*\s*\<close> that are cut off a value.\<close>

definition ColonSpace :: cls where
  "ColonSpace = Either (Unit 58) Space"

definition NUMBER_PREFIX :: rx where
  "NUMBER_PREFIX = Seq Bol (Seq (Plus (Cls Digit)) (Seq (Lit [46]) (Star (Cls Space))))"

definition STAR_PREFIX :: rx where
  "STAR_PREFIX = Seq Bol (Seq (Lit [42]) (Star (Cls Space)))"

text \<open>
  \<open>extractProgramName\<close>.  The four patterns, in the order of the array:
  \<^verbatim>\<open>
  /<program name>[:\s]*([^\n*<bullet>]+)/
  /<the program>[:\s]*([^\n*<bullet>]+)/
  /\d+\.\s*<program name>[:\s]*([^\n*<bullet>]+)/
  /\*\s*<program name>[:\s]*([^\n*<bullet>]+)/
  \<close>
  and the loop:
  \<^verbatim>\<open>
  for (const pattern of patterns) {
    const match = text.match(pattern);
    if (match) {
      const name = match[1].trim().replace(/^\d+\.\s*/, '').replace(/^\*\s*/, '');
      if (name.length > 200 || name.includes(<program code>)) continue;
      return name;
    }
  }
  return undefined;
  \<close>
\<close>

definition name_patterns :: "rx_group list" where
  "name_patterns =
     [Cap (Seq (Lit NAME_LABEL) (Star (Cls ColonSpace))) (Plus (Cls (NoneOf [10, 42, 8226]))) Eps,
      Cap (Seq (Lit PROGRAM_WORD) (Star (Cls ColonSpace))) (Plus (Cls (NoneOf [10, 42, 8226]))) Eps,
      Cap (Seq (Plus (Cls Digit)) (Seq (Lit [46]) (Seq (Star (Cls Space))
             (Seq (Lit NAME_LABEL) (Star (Cls ColonSpace))))))
          (Plus (Cls (NoneOf [10, 42, 8226]))) Eps,
      Cap (Seq (Lit [42]) (Seq (Star (Cls Space)) (Seq (Lit NAME_LABEL) (Star (Cls ColonSpace)))))
          (Plus (Cls (NoneOf [10, 42, 8226]))) Eps]"

definition clean_name :: "jsstring \<Rightarrow> jsstring" where
  "clean_name g = rx_remove_first STAR_PREFIX (rx_remove_first NUMBER_PREFIX (js_trim g))"

definition name_rejected :: "jsstring \<Rightarrow> bool" where
  "name_rejected name = (length name > 200 \<or> js_includes name CODE_LABEL)"

fun name_loop :: "jsstring \<Rightarrow> rx_group list \<Rightarrow> jsstring option" where
  "name_loop txt [] = None"
| "name_loop txt (pattern # patterns) =
     (case str_match pattern txt of
        None \<Rightarrow> name_loop txt patterns
      | Some m \<Rightarrow>
          (let name = clean_name (m_group m)
           in if name_rejected name then name_loop txt patterns else Some name))"

definition extractProgramName :: "jsstring \<Rightarrow> jsstring option" where
  "extractProgramName txt = name_loop txt name_patterns"

text \<open>
  \<open>extractProgramCode\<close>.  The last of its four patterns has the \<open>g\<close> flag, so for it
  \<open>text.match\<close> is the array of all matches and \<open>match[1]\<close> is the second match.
  \<^verbatim>\<open>
  /<program code>[:\s]*([^\n<bullet>]+)/
  /<the code>[:\s]*([A-Z]{2}\d{3})/
  /\*\s*<program code>[:\s]*([^\n<bullet>]+)/
  /([A-Z]{2}\d{3})/g

  const match = text.match(pattern);
  if (match) {
    const code = match[1] || match[0];
    const trimmedCode = code.trim().replace(/^\*\s*/, '');
    if (trimmedCode.length > 50 || trimmedCode.includes(<minimum>)) continue;
    return trimmedCode;
  }
  \<close>
\<close>

datatype code_rx = Single rx_group | Global rx

definition code_patterns :: "code_rx list" where
  "code_patterns =
     [Single (Cap (Seq (Lit CODE_LABEL) (Star (Cls ColonSpace))) (Plus (Cls (NoneOf [10, 8226]))) Eps),
      Single (Cap (Seq (Lit CODE_WORD) (Star (Cls ColonSpace)))
                  (Seq (Rep 2 (Cls Upper)) (Rep 3 (Cls Digit))) Eps),
      Single (Cap (Seq (Lit [42]) (Seq (Star (Cls Space)) (Seq (Lit CODE_LABEL) (Star (Cls ColonSpace)))))
                  (Plus (Cls (NoneOf [10, 8226]))) Eps),
      Global (Seq (Rep 2 (Cls Upper)) (Rep 3 (Cls Digit)))]"

text \<open>The array \<open>text.match(pattern)\<close> returns, and \<open>match[1] || match[0]\<close> on it.\<close>

fun match_array :: "code_rx \<Rightarrow> jsstring \<Rightarrow> jsstring list option" where
  "match_array (Single p) txt =
     (case str_match p txt of None \<Rightarrow> None | Some m \<Rightarrow> Some [m_whole m, m_group m])"
| "match_array (Global r) txt = str_match_all r txt"

fun first_or_zeroth :: "jsstring list \<Rightarrow> jsstring" where
  "first_or_zeroth (m0 # m1 # ms) = (if m1 \<noteq> [] then m1 else m0)"
| "first_or_zeroth [m0] = m0"
| "first_or_zeroth [] = []"

definition clean_code :: "jsstring \<Rightarrow> jsstring" where
  "clean_code c = rx_remove_first STAR_PREFIX (js_trim c)"

definition code_rejected :: "jsstring \<Rightarrow> bool" where
  "code_rejected trimmedCode = (length trimmedCode > 50 \<or> js_includes trimmedCode MIN_GRADE_LABEL)"

fun code_loop :: "jsstring \<Rightarrow> code_rx list \<Rightarrow> jsstring option" where
  "code_loop txt [] = None"
| "code_loop txt (pattern # patterns) =
     (case match_array pattern txt of
        None \<Rightarrow> code_loop txt patterns
      | Some arr \<Rightarrow>
          (let trimmedCode = clean_code (first_or_zeroth arr)
           in if code_rejected trimmedCode then code_loop txt patterns else Some trimmedCode))"

definition extractProgramCode :: "jsstring \<Rightarrow> jsstring option" where
  "extractProgramCode txt = code_loop txt code_patterns"

text \<open>
  \<open>extractInstitution\<close>:
  \<^verbatim>\<open>
  /<educational institution>[:\s]*([^\n<bullet>]+)/
  /<educational institution, stretched>[:\s]*([^\n<bullet>]+)/
  /<university>\s+([^\n\-<en dash><bullet>]+)/
  /<college>\s+([^\n\-<en dash><bullet>]+)/

  const inst = match[1].trim();
  if (inst.length > 100 || inst.includes(<program name>)) continue;
  return inst;
  \<close>
\<close>

definition institution_patterns :: "rx_group list" where
  "institution_patterns =
     [Cap (Seq (Lit INSTITUTION_LABEL) (Star (Cls ColonSpace))) (Plus (Cls (NoneOf [10, 8226]))) Eps,
      Cap (Seq (Lit INSTITUTION_LABEL_STRETCHED) (Star (Cls ColonSpace)))
          (Plus (Cls (NoneOf [10, 8226]))) Eps,
      Cap (Seq (Lit UNIVERSITY_WORD) (Plus (Cls Space))) (Plus (Cls (NoneOf [10, 45, 8211, 8226]))) Eps,
      Cap (Seq (Lit COLLEGE_WORD) (Plus (Cls Space))) (Plus (Cls (NoneOf [10, 45, 8211, 8226]))) Eps]"

definition institution_rejected :: "jsstring \<Rightarrow> bool" where
  "institution_rejected inst = (length inst > 100 \<or> js_includes inst NAME_LABEL)"

fun institution_loop :: "jsstring \<Rightarrow> rx_group list \<Rightarrow> jsstring option" where
  "institution_loop txt [] = None"
| "institution_loop txt (pattern # patterns) =
     (case str_match pattern txt of
        None \<Rightarrow> institution_loop txt patterns
      | Some m \<Rightarrow>
          (let inst = js_trim (m_group m)
           in if institution_rejected inst then institution_loop txt patterns else Some inst))"

definition extractInstitution :: "jsstring \<Rightarrow> jsstring option" where
  "extractInstitution txt = institution_loop txt institution_patterns"





section \<open>Chunker (text ingestion script)\<close>

text \<open>
  \<open>interface ProgramChunk { content; metadata: { program_name?, program_code?,
  institution?, section?, chunk_type, chunk_index } }\<close>.  The fields \<open>content\<close>,
  \<open>metadata\<close> and \<open>section\<close> are named \<open>chunk_content\<close>, \<open>chunk_meta\<close> and
  \<open>section_name\<close> here.
\<close>

datatype chunk_type = Organizational_notes | Program | Section_header

record chunk_metadata =
  program_name :: "jsstring option"
  program_code :: "jsstring option"
  institution :: "jsstring option"
  section_name :: "jsstring option"
  chunk_type :: chunk_type
  chunk_index :: nat

record ProgramChunk =
  chunk_content :: jsstring
  chunk_meta :: chunk_metadata

text \<open>The three chunks the script builds.\<close>

definition notes_chunk :: "jsstring \<Rightarrow> nat \<Rightarrow> ProgramChunk" where
  "notes_chunk c i =
     \<lparr>chunk_content = c,
      chunk_meta = \<lparr>program_name = None, program_code = None, institution = None,
                    section_name = Some ORG_NOTES_SECTION, chunk_type = Organizational_notes,
                    chunk_index = i\<rparr>\<rparr>"

definition header_chunk :: "jsstring \<Rightarrow> jsstring \<Rightarrow> nat \<Rightarrow> ProgramChunk" where
  "header_chunk c sec i =
     \<lparr>chunk_content = c,
      chunk_meta = \<lparr>program_name = None, program_code = None, institution = None,
                    section_name = Some sec, chunk_type = Section_header, chunk_index = i\<rparr>\<rparr>"

definition program_chunk ::
  "jsstring \<Rightarrow> jsstring option \<Rightarrow> jsstring option \<Rightarrow> jsstring option \<Rightarrow> jsstring \<Rightarrow> nat \<Rightarrow> ProgramChunk" where
  "program_chunk c name cd inst sec i =
     \<lparr>chunk_content = c,
      chunk_meta = \<lparr>program_name = name, program_code = cd, institution = inst,
                    section_name = Some sec, chunk_type = Program, chunk_index = i\<rparr>\<rparr>"

text \<open>
  The regular expressions of \<open>splitIntoChunks\<close>:
  \<^verbatim>\<open>
  orgNotesPattern   /^(<important organizational note>[\s\S]*?)(?=<section>\s+|<program name>|\d+\.\s*<name>)/
  programSeparators /(?=(?:^|\n)(?:\d+\.\s*)?(?:\*\s*)?(?:<program name>|<the program>)[:\s])
                     |(?=(?:^|\n)<section>\s+[^\n]+)|(?:_{5,})/
  /^_+$/
  /^<section>\s+([^\n]+)/
  \<close>
\<close>

definition orgNotesPattern :: rx_group where
  "orgNotesPattern =
     Cap Bol (Seq (Lit ORG_NOTES_LABEL) (Lazy (Cls AnyUnit)))
       (Ahead (Alt (Seq (Lit SECTION_WORD) (Plus (Cls Space)))
              (Alt (Lit NAME_LABEL)
                   (Seq (Plus (Cls Digit)) (Seq (Lit [46]) (Seq (Star (Cls Space)) (Lit NAME_WORD)))))))"

definition programSeparators :: rx where
  "programSeparators =
     Alt (Ahead (Seq (Alt Bol (Lit [10]))
                (Seq (Opt (Seq (Plus (Cls Digit)) (Seq (Lit [46]) (Star (Cls Space)))))
                (Seq (Opt (Seq (Lit [42]) (Star (Cls Space))))
                (Seq (Alt (Lit NAME_LABEL) (Lit PROGRAM_WORD)) (Cls ColonSpace))))))
    (Alt (Ahead (Seq (Alt Bol (Lit [10]))
                (Seq (Lit SECTION_WORD) (Seq (Plus (Cls Space)) (Plus (Cls (NoneOf [10])))))))
         (AtLeast 5 (Lit [95])))"

definition UNDERSCORES_ONLY :: rx where
  "UNDERSCORES_ONLY = Seq Bol (Seq (Plus (Lit [95])) Eol)"

definition SECTION_HEADER :: rx_group where
  "SECTION_HEADER = Cap (Seq Bol (Seq (Lit SECTION_WORD) (Plus (Cls Space)))) (Plus (Cls (NoneOf [10]))) Eps"

text \<open>
  The variables the loop over the blocks updates: the array \<open>chunks\<close> (named
  \<open>out_chunks\<close>), \<open>chunkIndex\<close> and \<open>currentSection\<close>.
\<close>

record chunker_state =
  out_chunks :: "ProgramChunk list"
  chunkIndex :: nat
  currentSection :: jsstring

text \<open>
  The body of \<open>for (const block of blocks)\<close>:
  \<^verbatim>\<open>
  const trimmedBlock = block.trim();
  if (trimmedBlock.length < 50) continue;
  if (/^_+$/.test(trimmedBlock)) continue;
  const sectionMatch = trimmedBlock.match(/^<section>\s+([^\n]+)/);
  if (sectionMatch) {
    currentSection = sectionMatch[1].trim();
    chunks.push({ content: trimmedBlock, metadata: { chunk_type: 'section_header',
                  section: currentSection, chunk_index: chunkIndex++ } });
    continue;
  }
  const programName = extractProgramName(trimmedBlock);
  const programCode = extractProgramCode(trimmedBlock);
  const institution = extractInstitution(trimmedBlock);
  if (programName || programCode) {
    chunks.push({ content: trimmedBlock, metadata: { program_name: programName,
                  program_code: programCode, institution: institution,
                  section: currentSection, chunk_type: 'program', chunk_index: chunkIndex++ } });
  }
  \<close>
\<close>

definition process_block :: "chunker_state \<Rightarrow> jsstring \<Rightarrow> chunker_state" where
  "process_block st block =
     (let trimmedBlock = js_trim block in
      if length trimmedBlock < 50 then st
      else if rx_test UNDERSCORES_ONLY trimmedBlock then st
      else (case str_match SECTION_HEADER trimmedBlock of
              Some sectionMatch \<Rightarrow>
                \<lparr>out_chunks = out_chunks st @
                   [header_chunk trimmedBlock (js_trim (m_group sectionMatch)) (chunkIndex st)],
                 chunkIndex = chunkIndex st + 1,
                 currentSection = js_trim (m_group sectionMatch)\<rparr>
            | None \<Rightarrow>
                (let programName = extractProgramName trimmedBlock;
                     programCode = extractProgramCode trimmedBlock;
                     inst = extractInstitution trimmedBlock
                 in if truthy programName \<or> truthy programCode
                    then st\<lparr>out_chunks := out_chunks st @
                             [program_chunk trimmedBlock programName programCode inst
                                (currentSection st) (chunkIndex st)],
                            chunkIndex := chunkIndex st + 1\<rparr>
                    else st)))"

text \<open>
  The primary split: the organizational notes at the beginning, when the text starts
  with their marker, then the blocks between the program separators.
\<close>

definition primary_chunks :: "jsstring \<Rightarrow> ProgramChunk list" where
  "primary_chunks txt =
     (let start = (case str_match orgNotesPattern txt of
                     None \<Rightarrow> \<lparr>out_chunks = [], chunkIndex = 0, currentSection = []\<rparr>
                   | Some orgNotesMatch \<Rightarrow>
                       \<lparr>out_chunks = [notes_chunk (js_trim (m_group orgNotesMatch)) 0],
                        chunkIndex = 1, currentSection = []\<rparr>)
      in out_chunks (foldl process_block start (rx_split programSeparators txt)))"

text \<open>
  The fallback \<open>splitByProgramBlocks\<close>.  Its line patterns:
  \<^verbatim>\<open>
  /^<section>\s+(.+)$/
  /^_{3,}$/
  /(?:\d+\.\s*)?(?:\*\s*)?<program name>[:\s]*(.+)$/
  /^(?:\*\s*)?<the program>[:\s]*(.+)$/
  /(?:\*\s*)?<program code>[:\s]*(.+)$/
  /(?:\*\s*)?<the code>[:\s]*([A-Z]{2}\d{3})/
  /<educational institution>[:\s]*(.+)$/
  \<close>
\<close>

definition LINE_SECTION :: rx_group where
  "LINE_SECTION = Cap (Seq Bol (Seq (Lit SECTION_WORD) (Plus (Cls Space)))) (Plus (Cls Dot)) Eol"

definition LINE_SEPARATOR :: rx where
  "LINE_SEPARATOR = Seq Bol (Seq (AtLeast 3 (Lit [95])) Eol)"

definition LINE_NAME :: rx_group where
  "LINE_NAME =
     Cap (Seq (Opt (Seq (Plus (Cls Digit)) (Seq (Lit [46]) (Star (Cls Space)))))
         (Seq (Opt (Seq (Lit [42]) (Star (Cls Space))))
         (Seq (Lit NAME_LABEL) (Star (Cls ColonSpace)))))
       (Plus (Cls Dot)) Eol"

definition LINE_PROGRAM :: rx_group where
  "LINE_PROGRAM =
     Cap (Seq Bol (Seq (Opt (Seq (Lit [42]) (Star (Cls Space))))
         (Seq (Lit PROGRAM_WORD) (Star (Cls ColonSpace)))))
       (Plus (Cls Dot)) Eol"

definition LINE_CODE :: rx_group where
  "LINE_CODE =
     Cap (Seq (Opt (Seq (Lit [42]) (Star (Cls Space)))) (Seq (Lit CODE_LABEL) (Star (Cls ColonSpace))))
       (Plus (Cls Dot)) Eol"

definition LINE_ALT_CODE :: rx_group where
  "LINE_ALT_CODE =
     Cap (Seq (Opt (Seq (Lit [42]) (Star (Cls Space)))) (Seq (Lit CODE_WORD) (Star (Cls ColonSpace))))
       (Seq (Rep 2 (Cls Upper)) (Rep 3 (Cls Digit))) Eps"

definition LINE_INSTITUTION :: rx_group where
  "LINE_INSTITUTION =
     Cap (Seq (Lit INSTITUTION_LABEL) (Star (Cls ColonSpace))) (Plus (Cls Dot)) Eol"

text \<open>
  The variables of the fallback: those of the primary split, and \<open>currentBlock\<close>,
  \<open>currentProgramName\<close>, \<open>currentProgramCode\<close>, \<open>currentInstitution\<close>.
\<close>

record line_state = chunker_state +
  currentBlock :: "jsstring list"
  currentProgramName :: "jsstring option"
  currentProgramCode :: "jsstring option"
  currentInstitution :: "jsstring option"

text \<open>
  \<^verbatim>\<open>
  const flushBlock = () => {
    if (currentBlock.length > 0) {
      const content = currentBlock.join('\n').trim();
      if (content.length > 50 && (currentProgramName || currentProgramCode)) {
        chunks.push({ content, metadata: { program_name: currentProgramName,
                      program_code: currentProgramCode, institution: currentInstitution,
                      section: currentSection, chunk_type: 'program', chunk_index: chunkIndex++ } });
      }
    }
    currentBlock = [];
    currentProgramName = undefined; currentProgramCode = undefined; currentInstitution = undefined;
  };
  \<close>
\<close>

definition flushBlock :: "line_state \<Rightarrow> line_state" where
  "flushBlock st =
     (let c = js_trim (js_join [10] (currentBlock st));
          emit = (length (currentBlock st) > 0 \<and> length c > 50 \<and>
                  (truthy (currentProgramName st) \<or> truthy (currentProgramCode st)))
      in st\<lparr>out_chunks := (if emit
                             then out_chunks st @
                                  [program_chunk c (currentProgramName st) (currentProgramCode st)
                                     (currentInstitution st) (currentSection st) (chunkIndex st)]
                             else out_chunks st),
            chunkIndex := (if emit then chunkIndex st + 1 else chunkIndex st),
            currentBlock := [], currentProgramName := None, currentProgramCode := None,
            currentInstitution := None\<rparr>)"

text \<open>
  The body of \<open>for (const line of lines)\<close>: a section line and a separator line flush;
  a program-name line flushes and starts a block; a line with the word for the program
  does the same when no name is held; any other line updates the code and the
  institution from its matches and, when it is not empty, joins the block.
\<close>

definition process_line :: "line_state \<Rightarrow> jsstring \<Rightarrow> line_state" where
  "process_line st line =
     (let trimmedLine = js_trim line in
      case str_match LINE_SECTION trimmedLine of
        Some sectionMatch \<Rightarrow> (flushBlock st)\<lparr>currentSection := js_trim (m_group sectionMatch)\<rparr>
      | None \<Rightarrow>
      if rx_test LINE_SEPARATOR trimmedLine then flushBlock st
      else (case str_match LINE_NAME trimmedLine of
        Some programNameMatch \<Rightarrow>
          (flushBlock st)\<lparr>currentProgramName := Some (js_trim (m_group programNameMatch)),
                           currentBlock := [trimmedLine]\<rparr>
      | None \<Rightarrow>
      (case (if truthy (currentProgramName st) then None else str_match LINE_PROGRAM trimmedLine) of
        Some programMatch \<Rightarrow>
          (flushBlock st)\<lparr>currentProgramName := Some (js_trim (m_group programMatch)),
                           currentBlock := [trimmedLine]\<rparr>
      | None \<Rightarrow>
          (let st1 = (case str_match LINE_CODE trimmedLine of
                        None \<Rightarrow> st
                      | Some codeMatch \<Rightarrow> st\<lparr>currentProgramCode := Some (js_trim (m_group codeMatch))\<rparr>);
               st2 = (case str_match LINE_ALT_CODE trimmedLine of
                        None \<Rightarrow> st1
                      | Some altCodeMatch \<Rightarrow> st1\<lparr>currentProgramCode := Some (m_group altCodeMatch)\<rparr>);
               st3 = (case str_match LINE_INSTITUTION trimmedLine of
                        None \<Rightarrow> st2
                      | Some instMatch \<Rightarrow> st2\<lparr>currentInstitution := Some (js_trim (m_group instMatch))\<rparr>)
           in if length trimmedLine > 0
              then st3\<lparr>currentBlock := currentBlock st3 @ [trimmedLine]\<rparr> else st3))))"

text \<open>
  \<open>splitByProgramBlocks(text)\<close>: the organizational notes are the text before the first
  occurrence of the word for section, when that is longer than 100 code units after
  trimming; then the lines, and a last flush.
\<close>

definition splitByProgramBlocks :: "jsstring \<Rightarrow> ProgramChunk list" where
  "splitByProgramBlocks txt =
     (let orgNotesEnd = js_indexOf txt SECTION_WORD;
          notes = (if orgNotesEnd > 0 \<and> length (js_trim (take (nat orgNotesEnd) txt)) > 100
                   then [notes_chunk (js_trim (take (nat orgNotesEnd) txt)) 0] else []);
          start = \<lparr>out_chunks = notes, chunkIndex = length notes, currentSection = [],
                   currentBlock = [], currentProgramName = None, currentProgramCode = None,
                   currentInstitution = None\<rparr>
      in out_chunks (flushBlock (foldl process_line start (split_on 10 txt))))"

text \<open>
  \<open>splitIntoChunks(text)\<close> ends with
  \<^verbatim>\<open>
  if (chunks.length < 10) {
    console.log('Few chunks detected, trying line-by-line program detection...');
    return splitByProgramBlocks(text);
  }
  return chunks;
  \<close>
  The result is paired with the lines written to the console, so that taking the
  fallback can be observed.
\<close>

datatype console_line = Few_chunks_detected

definition splitIntoChunks :: "jsstring \<Rightarrow> ProgramChunk list \<times> console_line list" where
  "splitIntoChunks txt =
     (if length (primary_chunks txt) < 10
      then (splitByProgramBlocks txt, [Few_chunks_detected])
      else (primary_chunks txt, []))"

(*DEFS-END*)

section \<open>Properties of the merge\<close>

lemma addDocs_first_per_id:
  "addDocs (rel, ids) docs = (rel @ first_per_id ids docs, ids \<union> doc_id ` set docs)"
  by (induction docs arbitrary: rel ids) auto

lemma first_per_id_append:
  "first_per_id seen (xs @ ys) =
     first_per_id seen xs @ first_per_id (seen \<union> doc_id ` set xs) ys"
  by (induction xs arbitrary: seen) (auto simp: insert_absorb)

lemma foldl_addDocs:
  "foldl addDocs (rel, ids) rs =
     (rel @ first_per_id ids (concat rs), ids \<union> doc_id ` set (concat rs))"
proof (induction rs arbitrary: rel ids)
  case Nil
  show ?case by simp
next
  case (Cons r rs)
  show ?case
    by (simp add: addDocs_first_per_id Cons.IH first_per_id_append Un_assoc image_Un)
qed

lemma first_per_id_ids:
  "set (map doc_id (first_per_id seen ds)) = doc_id ` set ds - seen"
  by (induction ds arbitrary: seen) auto

lemma first_per_id_distinct: "distinct (map doc_id (first_per_id seen ds))"
  by (induction ds arbitrary: seen) (auto simp: first_per_id_ids simp del: set_map)

lemma first_per_id_find:
  "i \<notin> seen \<Longrightarrow>
     List.find (\<lambda>d. doc_id d = i) (first_per_id seen ds) = List.find (\<lambda>d. doc_id d = i) ds"
proof (induction ds arbitrary: seen)
  case Nil
  show ?case by simp
next
  case (Cons d ds)
  show ?case
  proof (cases "doc_id d \<in> seen")
    case True
    with Cons.prems have "doc_id d \<noteq> i" by auto
    with True Cons show ?thesis by simp
  next
    case False
    with Cons show ?thesis by simp
  qed
qed

lemma count_list_distinct:
  "distinct xs \<Longrightarrow> count_list xs x = (if x \<in> set xs then 1 else 0)"
  by (induction xs) auto

text \<open>
  C1.  For every sequence of strategy result lists, the merged result holds every id
  that occurred exactly once (and no other id), and the match it holds for an id is the
  first match with that id in the order the strategies delivered them, with that
  match's similarity: a later occurrence never replaces it.
\<close>

theorem addDocs_each_id_once_first_wins:
  "distinct (map doc_id (fst (merge_results rs))) \<and>
   (\<forall>i. count_list (map doc_id (fst (merge_results rs))) i =
        (if i \<in> doc_id ` set (concat rs) then 1 else 0)) \<and>
   (\<forall>i. List.find (\<lambda>d. doc_id d = i) (fst (merge_results rs)) =
        List.find (\<lambda>d. doc_id d = i) (concat rs)) \<and>
   snd (merge_results rs) = doc_id ` set (concat rs)"
proof -
  have m: "merge_results rs = (first_per_id {} (concat rs), doc_id ` set (concat rs))"
    by (simp add: merge_results_def foldl_addDocs)
  have d: "distinct (map doc_id (first_per_id {} (concat rs)))"
    by (rule first_per_id_distinct)
  have s: "set (map doc_id (first_per_id {} (concat rs))) = doc_id ` set (concat rs)"
    by (simp add: first_per_id_ids del: set_map)
  have c: "\<forall>i. count_list (map doc_id (first_per_id {} (concat rs))) i =
        (if i \<in> doc_id ` set (concat rs) then 1 else 0)"
    using count_list_distinct [OF d] s by simp
  have f: "\<forall>i. List.find (\<lambda>d. doc_id d = i) (first_per_id {} (concat rs)) =
        List.find (\<lambda>d. doc_id d = i) (concat rs)"
    by (simp add: first_per_id_find)
  show ?thesis using m d c f by simp
qed

section \<open>Properties of the re-ranking comparators\<close>

lemma rerank_cmp_lower_boost:
  assumes "truthy prog"
    and "js_includes (lc (content a)) (lc (the prog))"
    and "\<not> js_includes (lc (content b)) (lc (the prog))"
  shows "rerank_cmp_lower lc prog a b < 0 \<and> rerank_cmp_lower lc prog b a > 0"
  using assms by (simp add: rerank_cmp_lower_def)

lemma rerank_cmp_lower_same_side:
  assumes "js_includes (lc (content a)) (lc (the prog)) = js_includes (lc (content b)) (lc (the prog))"
  shows "rerank_cmp_lower lc prog a b = similarity b - similarity a"
  using assms by (simp add: rerank_cmp_lower_def Let_def)

lemma rerank_cmp_is_lower_id: "rerank_cmp prog a b = rerank_cmp_lower (\<lambda>s. s) prog a b"
  by (simp add: rerank_cmp_def rerank_cmp_lower_def)

text \<open>
  C2 as stated fails on the multi-strategy variant: the program name \<open>MBA\<close> occurs
  literally in the content \<open>MBA\<close> and not in the content \<open>mba\<close>, the similarities are
  equal, and the comparator returns 0 both ways: it does not put the containing match
  first, because its containment test is made on the lower-cased strings.
\<close>

theorem rerank_literal_counterexample:
  "similarity \<lparr>doc_id = 1, content = [77, 66, 65], metadata = Map.empty, similarity = 1 / 2\<rparr> =
     similarity \<lparr>doc_id = 2, content = [109, 98, 97], metadata = Map.empty, similarity = 1 / 2\<rparr> \<and>
   truthy (Some [77, 66, 65]) \<and>
   js_includes (content \<lparr>doc_id = 1, content = [77, 66, 65], metadata = Map.empty, similarity = 1 / 2\<rparr>)
     [77, 66, 65] \<and>
   \<not> js_includes (content \<lparr>doc_id = 2, content = [109, 98, 97], metadata = Map.empty, similarity = 1 / 2\<rparr>)
     [77, 66, 65] \<and>
   rerank_cmp_lower ascii_lower (Some [77, 66, 65])
     \<lparr>doc_id = 1, content = [77, 66, 65], metadata = Map.empty, similarity = 1 / 2\<rparr>
     \<lparr>doc_id = 2, content = [109, 98, 97], metadata = Map.empty, similarity = 1 / 2\<rparr> = 0 \<and>
   rerank_cmp_lower ascii_lower (Some [77, 66, 65])
     \<lparr>doc_id = 2, content = [109, 98, 97], metadata = Map.empty, similarity = 1 / 2\<rparr>
     \<lparr>doc_id = 1, content = [77, 66, 65], metadata = Map.empty, similarity = 1 / 2\<rparr> = 0"
  by (simp add: rerank_cmp_lower_def ascii_lower_def truthy_def)

text \<open>
  C2 (amended).  When the analyzer extracted a program name and exactly one of two
  matches passes the comparator's own containment test, that match is ordered first
  whatever the similarities are; the test is literal containment in
  \<open>app/api/chat/route.ts\<close> and containment after lower-casing both strings in the
  multi-strategy variant.  Two matches on the same side of the test (or any two matches
  when no program name was extracted) are ordered by similarity, descending.
\<close>

theorem rerank_cmp_two_level:
  "(truthy prog \<and> js_includes (content a) (the prog) \<and> \<not> js_includes (content b) (the prog)
      \<longrightarrow> rerank_cmp prog a b < 0 \<and> rerank_cmp prog b a > 0) \<and>
   (js_includes (content a) (the prog) = js_includes (content b) (the prog) \<or> \<not> truthy prog
      \<longrightarrow> rerank_cmp prog a b = similarity b - similarity a \<and>
          (rerank_cmp prog a b < 0) = (similarity a > similarity b)) \<and>
   (truthy prog \<and> js_includes (lc (content a)) (lc (the prog)) \<and>
      \<not> js_includes (lc (content b)) (lc (the prog))
      \<longrightarrow> rerank_cmp_lower lc prog a b < 0 \<and> rerank_cmp_lower lc prog b a > 0) \<and>
   (js_includes (lc (content a)) (lc (the prog)) = js_includes (lc (content b)) (lc (the prog))
        \<or> \<not> truthy prog
      \<longrightarrow> rerank_cmp_lower lc prog a b = similarity b - similarity a \<and>
          (rerank_cmp_lower lc prog a b < 0) = (similarity a > similarity b))"
  by (auto simp: rerank_cmp_def rerank_cmp_lower_def Let_def)

theorem rerank_cmp_two_level_witness:
  "rerank_cmp (Some [66, 83])
     \<lparr>doc_id = 1, content = [66, 83, 49, 52, 48], metadata = Map.empty, similarity = 1 / 10\<rparr>
     \<lparr>doc_id = 2, content = [83, 81, 57, 53, 57], metadata = Map.empty, similarity = 9 / 10\<rparr> < 0 \<and>
   rerank_cmp (Some [66, 83])
     \<lparr>doc_id = 2, content = [83, 81, 57, 53, 57], metadata = Map.empty, similarity = 9 / 10\<rparr>
     \<lparr>doc_id = 1, content = [66, 83, 49, 52, 48], metadata = Map.empty, similarity = 1 / 10\<rparr> > 0 \<and>
   rerank_cmp_lower ascii_lower (Some [66, 83])
     \<lparr>doc_id = 1, content = [98, 115, 49, 52, 48], metadata = Map.empty, similarity = 1 / 10\<rparr>
     \<lparr>doc_id = 2, content = [83, 81, 57, 53, 57], metadata = Map.empty, similarity = 9 / 10\<rparr> < 0 \<and>
   rerank_cmp (Some [66, 83])
     \<lparr>doc_id = 1, content = [66, 83, 49], metadata = Map.empty, similarity = 3 / 10\<rparr>
     \<lparr>doc_id = 2, content = [66, 83, 50], metadata = Map.empty, similarity = 1 / 10\<rparr> = 1 / 10 - 3 / 10"
  using
    rerank_cmp_two_level [of "Some [66, 83]"
      "\<lparr>doc_id = 1, content = [66, 83, 49, 52, 48], metadata = Map.empty, similarity = 1 / 10\<rparr>"
      "\<lparr>doc_id = 2, content = [83, 81, 57, 53, 57], metadata = Map.empty, similarity = 9 / 10\<rparr>"
      ascii_lower]
    rerank_cmp_two_level [of "Some [66, 83]"
      "\<lparr>doc_id = 1, content = [98, 115, 49, 52, 48], metadata = Map.empty, similarity = 1 / 10\<rparr>"
      "\<lparr>doc_id = 2, content = [83, 81, 57, 53, 57], metadata = Map.empty, similarity = 9 / 10\<rparr>"
      ascii_lower]
    rerank_cmp_two_level [of "Some [66, 83]"
      "\<lparr>doc_id = 1, content = [66, 83, 49], metadata = Map.empty, similarity = 3 / 10\<rparr>"
      "\<lparr>doc_id = 2, content = [66, 83, 50], metadata = Map.empty, similarity = 1 / 10\<rparr>"
      ascii_lower]
  by (simp add: truthy_def ascii_lower_def)

section \<open>Properties of the context formatter\<close>

lemma js_join_length:
  "parts \<noteq> [] \<Longrightarrow>
     length (js_join sep parts) = sum_list (map length parts) + (length parts - 1) * length sep"
  by (induction sep parts rule: js_join.induct) auto







section \<open>Properties of the query analyzer\<close>

text \<open>
  C5 as stated fails on both variants.  With a model reply that does not parse, the
  route's analyzer returns \<open>search_query = question\<close> and neither
  \<open>is_general_question\<close> nor keywords; the multi-strategy analyzer returns no
  \<open>search_query\<close> at all (the question is the one element of \<open>search_queries\<close>), and
  its keywords are split on the space character only: in the question \<open>abc<TAB>de fgh\<close>
  the tab does not separate \<open>abc\<close> from \<open>de\<close>.
\<close>

theorem analyzeQuery_fallback_counterexample:
  "analyze_try (Inr [123]) (\<lambda>s. None) = Inl SyntaxError \<and>
   search_query (analyzeQuery (Inr [123]) (\<lambda>s. None) [97, 98, 99, 9, 100, 101, 32, 102, 103, 104]) =
     Some [97, 98, 99, 9, 100, 101, 32, 102, 103, 104] \<and>
   is_general_question (analyzeQuery (Inr [123]) (\<lambda>s. None) [97, 98, 99, 9, 100, 101, 32, 102, 103, 104]) =
     None \<and>
   query_keywords (analyzeQuery (Inr [123]) (\<lambda>s. None) [97, 98, 99, 9, 100, 101, 32, 102, 103, 104]) =
     None \<and>
   search_query (analyzeQuery_multi (Inr [123]) (\<lambda>s. None) [97, 98, 99, 9, 100, 101, 32, 102, 103, 104]) =
     None \<and>
   query_keywords (analyzeQuery_multi (Inr [123]) (\<lambda>s. None) [97, 98, 99, 9, 100, 101, 32, 102, 103, 104]) =
     Some [[97, 98, 99, 9, 100, 101], [102, 103, 104]]"
  by (simp add: analyze_try_def analyzeQuery_def analyzeQuery_multi_def empty_analysis_def)

text \<open>
  C5 (amended).  Whenever the model call of the analyzer rejects or its reply, with the
  code fences removed and trimmed, does not parse, the analyzer returns a fallback
  object and no error reaches the caller.  In \<open>app/api/chat/route.ts\<close> the object is
  \<open>{ search_query: question }\<close> and nothing else.  In the multi-strategy variant it is
  \<open>{ search_queries: [question], is_general_question: true, keywords }\<close> with the
  keywords the pieces of the question between space characters that are longer than 2
  code units.  In both the first search string of the retrieval is the question,
  verbatim.
\<close>

theorem analyzeQuery_fallback:
  "(analyze_try response JSON_parse = Inl e \<longrightarrow>
      analyzeQuery response JSON_parse question = empty_analysis\<lparr>search_query := Some question\<rparr> \<and>
      optimizedQuery (analyzeQuery response JSON_parse question) question = question \<and>
      analyzeQuery_multi response JSON_parse question =
        empty_analysis\<lparr>search_queries := Some [question], is_general_question := Some True,
          query_keywords := Some (filter (\<lambda>w. length w > 2) (split_on 32 question))\<rparr> \<and>
      first_search_multi (analyzeQuery_multi response JSON_parse question) question = Some question) \<and>
   (response = Inr reply_text \<and> JSON_parse (js_trim (strip_fences reply_text)) = None \<longrightarrow>
      analyze_try response JSON_parse = Inl SyntaxError) \<and>
   (response = Inl e \<longrightarrow> analyze_try response JSON_parse = Inl e)"
  by (auto simp: analyze_try_def analyzeQuery_def analyzeQuery_multi_def empty_analysis_def
        optimizedQuery_def str_or_def truthy_def first_search_multi_def)

theorem analyzeQuery_fallback_witness:
  "analyze_try (Inr [96, 96, 96, 106, 115, 111, 110, 10, 123, 10, 96, 96, 96])
     (\<lambda>s. if s = [123] then None else Some empty_analysis) = Inl SyntaxError \<and>
   analyzeQuery (Inr [96, 96, 96, 106, 115, 111, 110, 10, 123, 10, 96, 96, 96])
     (\<lambda>s. if s = [123] then None else Some empty_analysis) [66, 83, 49, 52, 48, 32, 63] =
     empty_analysis\<lparr>search_query := Some [66, 83, 49, 52, 48, 32, 63]\<rparr> \<and>
   analyzeQuery_multi (Inr [96, 96, 96, 106, 115, 111, 110, 10, 123, 10, 96, 96, 96])
     (\<lambda>s. if s = [123] then None else Some empty_analysis) [66, 83, 49, 52, 48, 32, 63] =
     empty_analysis\<lparr>search_queries := Some [[66, 83, 49, 52, 48, 32, 63]],
       is_general_question := Some True, query_keywords := Some [[66, 83, 49, 52, 48]]\<rparr>"
  using analyzeQuery_fallback [of "Inr [96, 96, 96, 106, 115, 111, 110, 10, 123, 10, 96, 96, 96]"
      "\<lambda>s. if s = [123] then None else Some empty_analysis" SyntaxError
      "[66, 83, 49, 52, 48, 32, 63]" "[96, 96, 96, 106, 115, 111, 110, 10, 123, 10, 96, 96, 96]"]
  by (simp add: js_trim_def js_space_def)

section \<open>Failure semantics of the retrieval\<close>





lemma addDocs_Nil: "addDocs st [] = st"
  by (cases st) simp





section \<open>Termination of \<open>splitLongBlock\<close>\<close>













section \<open>Properties of the metadata extractors\<close>












end
